theory Spec2Isabelle
  imports Complex_Main "HOL-Library.Word"
begin

section \<open>Single-precision floating point\<close>

text \<open>
  The controller computes in C \<^verbatim>\<open>float\<close>, which on the target (STM32F4) is IEEE 754
  binary32. A value is a finite real, an infinity or a NaN. The two zeros are identified:
  they compare equal, and no operation of the program separates them. The payload of
  \<open>Fin\<close> is not restricted to representable numbers, so a statement about every
  \<open>float32\<close> covers every binary32 value; each arithmetic operation rounds its exact
  result to binary32 (round to nearest, ties to even), overflowing to an infinity. A
  product and the sum that follows it are rounded one after the other.
\<close>

datatype float32 = Fin real | PInf | NInf | NaN

definition round_half_even :: "real \<Rightarrow> int" where
  "round_half_even x =
     (let f = \<lfloor>x\<rfloor>; d = x - of_int f
      in if d < 1 / 2 then f
         else if 1 / 2 < d then f + 1
         else if even f then f else f + 1)"

text \<open>
  The spacing of binary32 numbers around a magnitude \<open>a\<close>: the least \<open>q\<close> among
  \<open>q0, 2 q0, 4 q0, ...\<close> with \<open>a < q * 2^24\<close>, found by doubling at most \<open>n\<close> times.
  From \<open>min_quantum = 2^-149\<close> (the subnormal spacing) 253 doublings reach \<open>2^104\<close>,
  the spacing of the largest binade.
\<close>

fun quantum :: "nat \<Rightarrow> real \<Rightarrow> real \<Rightarrow> real" where
  "quantum 0 q a = q"
| "quantum (Suc n) q a = (if a < q * 2 ^ 24 then q else quantum n (2 * q) a)"

definition min_quantum :: real where
  "min_quantum = 1 / 2 ^ 149"

definition max_finite :: real where
  "max_finite = (2 ^ 24 - 1) * 2 ^ 104"

definition round_f32 :: "real \<Rightarrow> float32" where
  "round_f32 x =
     (let a = \<bar>x\<bar>;
          q = quantum 253 min_quantum a;
          r = of_int (round_half_even (a / q)) * q
      in if max_finite < r then (if x < 0 then NInf else PInf)
         else Fin (if x < 0 then - r else r))"

text \<open>A decimal literal with suffix \<^verbatim>\<open>f\<close> denotes the nearest binary32 number.\<close>

definition f32 :: "real \<Rightarrow> float32" where
  "f32 x = round_f32 x"

text \<open>Conversion \<^verbatim>\<open>(float)adc_value\<close> of a 16-bit unsigned integer: exact.\<close>

definition of_u16 :: "16 word \<Rightarrow> float32" where
  "of_u16 w = Fin (real (unat w))"

fun fneg :: "float32 \<Rightarrow> float32" where
  "fneg (Fin x) = Fin (- x)"
| "fneg PInf = NInf"
| "fneg NInf = PInf"
| "fneg NaN = NaN"

fun fadd :: "float32 \<Rightarrow> float32 \<Rightarrow> float32" where
  "fadd NaN _ = NaN"
| "fadd _ NaN = NaN"
| "fadd PInf NInf = NaN"
| "fadd NInf PInf = NaN"
| "fadd PInf _ = PInf"
| "fadd _ PInf = PInf"
| "fadd NInf _ = NInf"
| "fadd _ NInf = NInf"
| "fadd (Fin x) (Fin y) = round_f32 (x + y)"

definition fsub :: "float32 \<Rightarrow> float32 \<Rightarrow> float32" where
  "fsub a b = fadd a (fneg b)"

fun fmul :: "float32 \<Rightarrow> float32 \<Rightarrow> float32" where
  "fmul NaN _ = NaN"
| "fmul _ NaN = NaN"
| "fmul (Fin x) (Fin y) = round_f32 (x * y)"
| "fmul (Fin x) PInf = (if x = 0 then NaN else if 0 < x then PInf else NInf)"
| "fmul (Fin x) NInf = (if x = 0 then NaN else if 0 < x then NInf else PInf)"
| "fmul PInf (Fin y) = (if y = 0 then NaN else if 0 < y then PInf else NInf)"
| "fmul NInf (Fin y) = (if y = 0 then NaN else if 0 < y then NInf else PInf)"
| "fmul PInf PInf = PInf"
| "fmul PInf NInf = NInf"
| "fmul NInf PInf = NInf"
| "fmul NInf NInf = PInf"

text \<open>The comparisons \<^verbatim>\<open><\<close> and \<^verbatim>\<open>>\<close>: false as soon as an operand is a NaN.\<close>

fun flt :: "float32 \<Rightarrow> float32 \<Rightarrow> bool" where
  "flt NaN _ = False"
| "flt _ NaN = False"
| "flt (Fin x) (Fin y) = (x < y)"
| "flt NInf NInf = False"
| "flt NInf _ = True"
| "flt _ NInf = False"
| "flt PInf _ = False"
| "flt _ PInf = True"

definition fgt :: "float32 \<Rightarrow> float32 \<Rightarrow> bool" where
  "fgt a b = flt b a"

text \<open>
  \<^verbatim>\<open>fmaxf\<close>, \<^verbatim>\<open>fminf\<close> and \<^verbatim>\<open>fabsf\<close> of the C library: exact; when one argument
  of \<^verbatim>\<open>fmaxf\<close> or \<^verbatim>\<open>fminf\<close> is a NaN the other is returned.
\<close>

definition fmaxf :: "float32 \<Rightarrow> float32 \<Rightarrow> float32" where
  "fmaxf a b = (if a = NaN then b else if b = NaN then a else if flt a b then b else a)"

definition fminf :: "float32 \<Rightarrow> float32 \<Rightarrow> float32" where
  "fminf a b = (if a = NaN then b else if b = NaN then a else if flt b a then b else a)"

fun fabsf :: "float32 \<Rightarrow> float32" where
  "fabsf (Fin x) = Fin \<bar>x\<bar>"
| "fabsf PInf = PInf"
| "fabsf NInf = PInf"
| "fabsf NaN = NaN"

text \<open>
  \<^verbatim>\<open>powf(x, 2.0f)\<close>, the only use of \<^verbatim>\<open>powf\<close> in the program: the square,
  rounded once.
\<close>

definition powf_2 :: "float32 \<Rightarrow> float32" where
  "powf_2 x = fmul x x"

section \<open>The controller\<close>

text \<open>The status codes of the vendor's library.\<close>

datatype HAL_StatusTypeDef = HAL_OK | HAL_ERROR | HAL_BUSY | HAL_TIMEOUT

text \<open>
  The program of \<^verbatim>\<open>src/main.c\<close>. Its file-scope variables and the two function-local
  \<^verbatim>\<open>static\<close> timestamps are the fields of one record, passed through every function.
  The analog converter is part of the same record: \<open>adc_input k\<close> is the value the
  data register holds at the \<open>k\<close>-th conversion since power-up, \<open>adc_status k\<close> is the
  status the library reports for that conversion (\<open>HAL_OK\<close> when it completed), and
  \<open>adc_conversions\<close> counts the conversions made so far. The array \<^verbatim>\<open>adc_buffer\<close> is
  a function of the index.
\<close>

record machine =
  L_mH :: float32
  C_uF :: float32
  ESR_mOhm :: float32
  duty_cycle :: float32
  efficiency :: float32
  adc_buffer :: "nat \<Rightarrow> 16 word"
  adc_sum :: "32 word"
  system_initialized :: bool
  last_adjustment_time :: "32 word"
  last_measurement_time :: "32 word"
  adc_input :: "nat \<Rightarrow> 32 word"
  adc_conversions :: nat
  adc_status :: "nat \<Rightarrow> HAL_StatusTypeDef"

definition MAX_DUTY_CYCLE :: float32 where
  "MAX_DUTY_CYCLE = f32 0.95"

definition MIN_DUTY_CYCLE :: float32 where
  "MIN_DUTY_CYCLE = f32 0.05"

definition TARGET_EFFICIENCY :: float32 where
  "TARGET_EFFICIENCY = f32 0.95"

definition ADC_BUFFER_SIZE :: nat where
  "ADC_BUFFER_SIZE = 16"

text \<open>
  The state the initialisers of the file-scope variables give, for a converter input,
  with a converter that completes every conversion.
\<close>

definition initial_state :: "(nat \<Rightarrow> 32 word) \<Rightarrow> machine" where
  "initial_state inp =
     \<lparr>L_mH = f32 0, C_uF = f32 0, ESR_mOhm = f32 0,
      duty_cycle = f32 0.5, efficiency = f32 0,
      adc_buffer = (\<lambda>i. 0), adc_sum = 0, system_initialized = False,
      last_adjustment_time = 0, last_measurement_time = 0,
      adc_input = inp, adc_conversions = 0, adc_status = (\<lambda>k. HAL_OK)\<rparr>"

subsection \<open>The peripheral library\<close>

text \<open>
  The handle of the converter. \<^verbatim>\<open>init_adc\<close> fills it with constants of the vendor's
  header, kept here by their names.
\<close>

record ADC_HandleTypeDef =
  Instance :: string
  ClockPrescaler :: string
  Resolution :: string
  ScanConvMode :: string
  ContinuousConvMode :: string
  DiscontinuousConvMode :: string
  ExternalTrigConv :: string
  ExternalTrigConvEdge :: string
  DataAlign :: string
  NbrOfConversion :: nat
  DMAContinuousRequests :: string
  EOCSelection :: string

text \<open>
  The vendor's library is not part of the program: what its calls return (status codes,
  ticks, converted values) is an input of the model. One conversion is
  \<^verbatim>\<open>HAL_ADC_Start\<close>, \<^verbatim>\<open>HAL_ADC_PollForConversion\<close>, \<^verbatim>\<open>HAL_ADC_GetValue\<close>,
  \<^verbatim>\<open>HAL_ADC_Stop\<close>. Starting, polling and stopping return a status, the one of the
  conversion they belong to; \<^verbatim>\<open>HAL_ADC_GetValue\<close> returns the content of the data
  register whatever the status, and does not consume it; stopping the converter ends the
  conversion. \<^verbatim>\<open>HAL_Delay\<close> changes no variable of the program.
\<close>

definition HAL_ADC_Start :: "ADC_HandleTypeDef \<Rightarrow> machine \<Rightarrow> HAL_StatusTypeDef \<times> machine" where
  "HAL_ADC_Start hadc s = (adc_status s (adc_conversions s), s)"

definition HAL_ADC_PollForConversion :: "ADC_HandleTypeDef \<Rightarrow> machine \<Rightarrow> HAL_StatusTypeDef \<times> machine" where
  "HAL_ADC_PollForConversion hadc s = (adc_status s (adc_conversions s), s)"

definition HAL_ADC_GetValue :: "ADC_HandleTypeDef \<Rightarrow> machine \<Rightarrow> 32 word" where
  "HAL_ADC_GetValue hadc s = adc_input s (adc_conversions s)"

definition HAL_ADC_Stop :: "ADC_HandleTypeDef \<Rightarrow> machine \<Rightarrow> HAL_StatusTypeDef \<times> machine" where
  "HAL_ADC_Stop hadc s =
     (adc_status s (adc_conversions s), s\<lparr>adc_conversions := Suc (adc_conversions s)\<rparr>)"

subsection \<open>Sampling\<close>

text \<open>
  The loop of \<^verbatim>\<open>read_adc_safely\<close>, from index \<open>i\<close> with the sum so far (\<open>sum_v\<close>,
  the local \<^verbatim>\<open>sum\<close>). The statuses that starting, polling and stopping return are
  discarded, as in the source (\<open>snd\<close> keeps the state only). The value read is truncated
  to 16 bits when it is stored in \<^verbatim>\<open>adc_buffer[i]\<close>, and the sum adds what was stored.
\<close>

function read_adc_loop :: "ADC_HandleTypeDef \<Rightarrow> nat \<Rightarrow> 32 word \<Rightarrow> machine \<Rightarrow> 32 word \<times> machine" where
  "read_adc_loop hadc i sum_v s =
     (if i < ADC_BUFFER_SIZE then
        let s1 = snd (HAL_ADC_Start hadc s);
            s2 = snd (HAL_ADC_PollForConversion hadc s1);
            s3 = s2\<lparr>adc_buffer := (adc_buffer s2)(i := ucast (HAL_ADC_GetValue hadc s2))\<rparr>;
            sum_v' = sum_v + ucast (adc_buffer s3 i);
            s4 = snd (HAL_ADC_Stop hadc s3)
        in read_adc_loop hadc (i + 1) sum_v' s4
      else (sum_v, s))"
  by pat_completeness auto
termination
  by (relation "measure (\<lambda>(hadc, i, sum_v, s). ADC_BUFFER_SIZE - i)") auto

definition read_adc_safely :: "ADC_HandleTypeDef \<Rightarrow> machine \<Rightarrow> 16 word \<times> machine" where
  "read_adc_safely hadc s =
     (let (sum_v, s') = read_adc_loop hadc 0 0 s
      in (ucast (sum_v div of_nat ADC_BUFFER_SIZE), s'))"

subsection \<open>Parameter estimation\<close>

text \<open>A pointer to a handle is \<open>Some\<close> handle, or \<open>None\<close> for \<^verbatim>\<open>NULL\<close>.\<close>

definition measure_electrical_parameters :: "ADC_HandleTypeDef option \<Rightarrow> machine \<Rightarrow> bool \<times> machine" where
  "measure_electrical_parameters hadc s =
     (case hadc of
        None \<Rightarrow> (False, s)
      | Some h \<Rightarrow>
          let (adc_value, s0) = read_adc_safely h s;
              s1 = s0\<lparr>L_mH := fadd (fmul (of_u16 adc_value) (f32 0.1)) (f32 0.1)\<rparr>;
              s2 = s1\<lparr>C_uF := fadd (fmul (of_u16 adc_value) (f32 0.05)) (f32 1)\<rparr>;
              s3 = s2\<lparr>ESR_mOhm := fadd (fmul (of_u16 adc_value) (f32 0.2)) (f32 0.5)\<rparr>
          in if flt (L_mH s3) (f32 0.01) \<or> fgt (L_mH s3) (f32 100) then (False, s3)
             else if flt (C_uF s3) (f32 0.1) \<or> fgt (C_uF s3) (f32 1000) then (False, s3)
             else if flt (ESR_mOhm s3) (f32 0) \<or> fgt (ESR_mOhm s3) (f32 100) then (False, s3)
             else (True, s3))"

subsection \<open>Efficiency\<close>

text \<open>
  \<^verbatim>\<open>calculate_efficiency\<close> reads the file-scope \<^verbatim>\<open>duty_cycle\<close>; like every function
  of the program it is given the state and returns its result with the state it leaves.
\<close>

definition calculate_efficiency :: "float32 \<Rightarrow> float32 \<Rightarrow> float32 \<Rightarrow> machine \<Rightarrow> float32 \<times> machine" where
  "calculate_efficiency inductance capacitance esr s =
     (let switching_losses = fmul (fmul (f32 0.01) inductance) (powf_2 (duty_cycle s));
          conduction_losses = fmul esr (powf_2 (duty_cycle s));
          total_losses = fadd switching_losses conduction_losses
      in if flt total_losses (f32 0.0001) then (f32 1, s)
         else (fmaxf (f32 0) (fminf (f32 1) (fsub (f32 1) total_losses)), s))"

subsection \<open>Duty-cycle adjustment\<close>

text \<open>\<open>current_time\<close> is what \<^verbatim>\<open>HAL_GetTick()\<close> returns to this call, in milliseconds.\<close>

definition adjust_duty_cycle :: "float32 \<Rightarrow> 32 word \<Rightarrow> machine \<Rightarrow> bool \<times> machine" where
  "adjust_duty_cycle target_efficiency current_time s =
     (if current_time - last_adjustment_time s < 100 then (False, s)
      else
        let s1 = s\<lparr>last_adjustment_time := current_time\<rparr>;
            efficiency_error = fsub target_efficiency (efficiency s1);
            adjustment_step = fmul efficiency_error (f32 0.05);
            new_duty_cycle = fadd (duty_cycle s1) adjustment_step;
            new_duty_cycle' = fmaxf MIN_DUTY_CYCLE (fminf MAX_DUTY_CYCLE new_duty_cycle)
        in if fgt (fabsf (fsub new_duty_cycle' (duty_cycle s1))) (f32 0.001)
           then (True, s1\<lparr>duty_cycle := new_duty_cycle'\<rparr>)
           else (False, s1))"

subsection \<open>Initialisation\<close>

definition init_adc :: "HAL_StatusTypeDef \<Rightarrow> ADC_HandleTypeDef option \<Rightarrow> bool \<times> ADC_HandleTypeDef option" where
  "init_adc adc_init_status hadc =
     (case hadc of
        None \<Rightarrow> (False, None)
      | Some h \<Rightarrow>
          let h' = h\<lparr>Instance := ''ADC1'',
                     ClockPrescaler := ''ADC_CLOCK_SYNC_PCLK_DIV4'',
                     Resolution := ''ADC_RESOLUTION_12B'',
                     ScanConvMode := ''DISABLE'',
                     ContinuousConvMode := ''DISABLE'',
                     DiscontinuousConvMode := ''DISABLE'',
                     ExternalTrigConv := ''ADC_SOFTWARE_START'',
                     ExternalTrigConvEdge := ''ADC_EXTERNALTRIGCONVEDGE_NONE'',
                     DataAlign := ''ADC_DATAALIGN_RIGHT'',
                     NbrOfConversion := 1,
                     DMAContinuousRequests := ''DISABLE'',
                     EOCSelection := ''ADC_EOC_SINGLE_CONV''\<rparr>
          in if adc_init_status \<noteq> HAL_OK then (False, Some h') else (True, Some h'))"

text \<open>
  \<^verbatim>\<open>system_init\<close>, given what \<^verbatim>\<open>HAL_Init()\<close> and \<^verbatim>\<open>HAL_ADC_Init\<close> return and the
  content of its local handle \<^verbatim>\<open>hadc1\<close>.
\<close>

definition system_init :: "HAL_StatusTypeDef \<Rightarrow> HAL_StatusTypeDef \<Rightarrow> ADC_HandleTypeDef \<Rightarrow> machine \<Rightarrow> bool \<times> machine" where
  "system_init hal_init_status adc_init_status hadc1 s =
     (if hal_init_status \<noteq> HAL_OK then (False, s)
      else if \<not> fst (init_adc adc_init_status (Some hadc1)) then (False, s)
      else (True, s\<lparr>system_initialized := True\<rparr>))"

subsection \<open>The control loop\<close>

text \<open>
  The first half of \<^verbatim>\<open>control_loop\<close>: the periodic measurement, with its fallback.
  \<open>current_time\<close> is the tick \<^verbatim>\<open>control_loop\<close> reads.
\<close>

definition measurement_phase :: "ADC_HandleTypeDef option \<Rightarrow> 32 word \<Rightarrow> machine \<Rightarrow> machine" where
  "measurement_phase hadc current_time s =
     (if current_time - last_measurement_time s > 50 then
        let s1 = s\<lparr>last_measurement_time := current_time\<rparr>;
            (ok, s2) = measure_electrical_parameters hadc s1
        in if ok then
             let (e, s3) = calculate_efficiency (L_mH s2) (C_uF s2) (ESR_mOhm s2) s2
             in s3\<lparr>efficiency := e\<rparr>
           else s2\<lparr>duty_cycle := f32 0.5, efficiency := f32 0\<rparr>
      else s)"

text \<open>
  \<^verbatim>\<open>control_loop\<close>: the measurement, then the adjustment towards the target.
  \<open>adjust_time\<close> is the tick \<^verbatim>\<open>adjust_duty_cycle\<close> reads in this iteration.
\<close>

definition control_loop :: "ADC_HandleTypeDef option \<Rightarrow> 32 word \<Rightarrow> 32 word \<Rightarrow> machine \<Rightarrow> machine" where
  "control_loop hadc current_time adjust_time s =
     snd (adjust_duty_cycle TARGET_EFFICIENCY adjust_time (measurement_phase hadc current_time s))"

subsection \<open>The fault handler and the main program\<close>

text \<open>
  \<^verbatim>\<open>error_handler\<close> writes the duty cycle and then sleeps in a loop it never leaves;
  \<^verbatim>\<open>main\<close> never returns either. The program is therefore a machine with three
  places: before \<^verbatim>\<open>system_init\<close>, in the loop of \<^verbatim>\<open>main\<close>, and in the loop of
  \<^verbatim>\<open>error_handler\<close>. One step runs \<^verbatim>\<open>system_init\<close> (and the entry of
  \<^verbatim>\<open>error_handler\<close> when it fails), or one iteration of either loop.
\<close>

datatype place = At_init | In_main_loop | In_error_handler

definition error_handler_entry :: "machine \<Rightarrow> machine" where
  "error_handler_entry s = s\<lparr>duty_cycle := MIN_DUTY_CYCLE\<rparr>"

text \<open>What the environment gives to one step: status codes, the handle's content, ticks.\<close>

record step_input =
  hal_init_status :: HAL_StatusTypeDef
  adc_init_status :: HAL_StatusTypeDef
  hadc1_content :: ADC_HandleTypeDef
  loop_tick :: "32 word"
  adjust_tick :: "32 word"

fun main_step :: "step_input \<Rightarrow> place \<times> machine \<Rightarrow> place \<times> machine" where
  "main_step i (At_init, s) =
     (case system_init (hal_init_status i) (adc_init_status i) (hadc1_content i) s of
        (False, s') \<Rightarrow> (In_error_handler, error_handler_entry s')
      | (True, s') \<Rightarrow> (In_main_loop, s'))"
| "main_step i (In_main_loop, s) = (In_main_loop, control_loop None (loop_tick i) (adjust_tick i) s)"
| "main_step i (In_error_handler, s) = (In_error_handler, s)"

fun main_run :: "step_input list \<Rightarrow> place \<times> machine \<Rightarrow> place \<times> machine" where
  "main_run [] c = c"
| "main_run (i # inputs) c = main_run inputs (main_step i c)"

section \<open>Notions of the specification\<close>

text \<open>
  A value lies within \<open>[lo, hi]\<close> when it is a finite number between the two bounds
  (inclusive: the program rejects a parameter only when it is below the lower or above
  the upper bound); \<open>lies_strictly_in\<close> excludes the bounds. \<open>lies_between\<close> is the same
  with binary32 bounds.
\<close>

definition lies_in :: "real \<Rightarrow> real \<Rightarrow> float32 \<Rightarrow> bool" where
  "lies_in lo hi v = (case v of Fin x \<Rightarrow> lo \<le> x \<and> x \<le> hi | _ \<Rightarrow> False)"

definition lies_strictly_in :: "real \<Rightarrow> real \<Rightarrow> float32 \<Rightarrow> bool" where
  "lies_strictly_in lo hi v = (case v of Fin x \<Rightarrow> lo < x \<and> x < hi | _ \<Rightarrow> False)"

definition lies_between :: "float32 \<Rightarrow> float32 \<Rightarrow> float32 \<Rightarrow> bool" where
  "lies_between lo hi v =
     (case lo of
        Fin l \<Rightarrow> (case hi of Fin h \<Rightarrow> lies_in l h v | _ \<Rightarrow> False)
      | _ \<Rightarrow> False)"

definition lies_strictly_between :: "float32 \<Rightarrow> float32 \<Rightarrow> float32 \<Rightarrow> bool" where
  "lies_strictly_between lo hi v =
     (case lo of
        Fin l \<Rightarrow> (case hi of Fin h \<Rightarrow> lies_strictly_in l h v | _ \<Rightarrow> False)
      | _ \<Rightarrow> False)"

text \<open>
  \<open>clamp x lo hi\<close>, as the program writes it with \<^verbatim>\<open>fmaxf\<close> and \<^verbatim>\<open>fminf\<close>.
\<close>

definition clamp :: "float32 \<Rightarrow> float32 \<Rightarrow> float32 \<Rightarrow> float32" where
  "clamp x lo hi = fmaxf lo (fminf hi x)"

text \<open>
  The efficiency model in the words of the specification: switching losses
  \<open>0.01 * inductance * duty\<^sup>2\<close>, conduction losses \<open>esr * duty\<^sup>2\<close>; 1.0 when their sum
  is below 0.0001, otherwise \<open>clamp (1.0 - total) 0.0 1.0\<close>.
\<close>

definition efficiency_model :: "float32 \<Rightarrow> float32 \<Rightarrow> float32 \<Rightarrow> float32" where
  "efficiency_model inductance esr duty =
     (let total_losses = fadd (fmul (fmul (f32 0.01) inductance) (fmul duty duty))
                              (fmul esr (fmul duty duty))
      in if flt total_losses (f32 0.0001) then f32 1
         else clamp (fsub (f32 1) total_losses) (f32 0) (f32 1))"

text \<open>The invariant of the duty cycle: between the two limits of the program.\<close>

definition duty_in_bounds :: "machine \<Rightarrow> bool" where
  "duty_in_bounds s = lies_between MIN_DUTY_CYCLE MAX_DUTY_CYCLE (duty_cycle s)"

text \<open>
  The three stored parameters, and the values \<^verbatim>\<open>measure_electrical_parameters\<close>
  computes from a raw sample.
\<close>

definition parameters :: "machine \<Rightarrow> float32 \<times> float32 \<times> float32" where
  "parameters s = (L_mH s, C_uF s, ESR_mOhm s)"

definition estimate :: "16 word \<Rightarrow> float32 \<times> float32 \<times> float32" where
  "estimate raw =
     (fadd (fmul (of_u16 raw) (f32 0.1)) (f32 0.1),
      fadd (fmul (of_u16 raw) (f32 0.05)) (f32 1),
      fadd (fmul (of_u16 raw) (f32 0.2)) (f32 0.5))"

text \<open>
  One linear transform of the estimator on real arguments, \<open>r * c + off\<close> in binary32
  arithmetic: the product is rounded, then the sum.
\<close>

definition linear_transform :: "real \<Rightarrow> real \<Rightarrow> real \<Rightarrow> float32" where
  "linear_transform c off r = fadd (fmul (Fin r) (Fin c)) (Fin off)"

text \<open>
  All three values in their ranges, with the bounds of the program (binary32 numbers)
  counted in, and with them excluded.
\<close>

definition all_in_range :: "float32 \<times> float32 \<times> float32 \<Rightarrow> bool" where
  "all_in_range p =
     (case p of (l, c, e) \<Rightarrow>
        lies_between (f32 0.01) (f32 100) l \<and> lies_between (f32 0.1) (f32 1000) c
        \<and> lies_between (f32 0) (f32 100) e)"

definition all_strictly_in_range :: "float32 \<times> float32 \<times> float32 \<Rightarrow> bool" where
  "all_strictly_in_range p =
     (case p of (l, c, e) \<Rightarrow>
        lies_strictly_between (f32 0.01) (f32 100) l \<and> lies_strictly_between (f32 0.1) (f32 1000) c
        \<and> lies_strictly_between (f32 0) (f32 100) e)"

text \<open>The same with the bounds as the decimal numbers the program text and the specification write.\<close>

definition all_in_decimal_range :: "float32 \<times> float32 \<times> float32 \<Rightarrow> bool" where
  "all_in_decimal_range p =
     (case p of (l, c, e) \<Rightarrow> lies_in 0.01 100 l \<and> lies_in 0.1 1000 c \<and> lies_in 0 100 e)"

definition all_strictly_in_decimal_range :: "float32 \<times> float32 \<times> float32 \<Rightarrow> bool" where
  "all_strictly_in_decimal_range p =
     (case p of (l, c, e) \<Rightarrow>
        lies_strictly_in 0.01 100 l \<and> lies_strictly_in 0.1 1000 c \<and> lies_strictly_in 0 100 e)"


text \<open>
  Sequences of invocations, in any order and with any arguments: iterations of
  \<^verbatim>\<open>control_loop\<close>, direct calls of \<^verbatim>\<open>adjust_duty_cycle\<close>, and the entry of
  \<^verbatim>\<open>error_handler\<close>.
\<close>

datatype invocation =
  Control_loop "ADC_HandleTypeDef option" "32 word" "32 word"
| Adjust_duty_cycle float32 "32 word"
| Error_handler

fun invoke :: "invocation \<Rightarrow> machine \<Rightarrow> machine" where
  "invoke (Control_loop hadc current_time adjust_time) s = control_loop hadc current_time adjust_time s"
| "invoke (Adjust_duty_cycle target current_time) s = snd (adjust_duty_cycle target current_time s)"
| "invoke Error_handler s = error_handler_entry s"

fun invoke_all :: "invocation list \<Rightarrow> machine \<Rightarrow> machine" where
  "invoke_all [] s = s"
| "invoke_all (c # cs) s = invoke_all cs (invoke c s)"

section \<open>Test inputs\<close>

text \<open>A handle as \<^verbatim>\<open>init_adc\<close> leaves it, for the concrete runs below.\<close>

definition configured_handle :: ADC_HandleTypeDef where
  "configured_handle =
     \<lparr>Instance = ''ADC1'', ClockPrescaler = ''ADC_CLOCK_SYNC_PCLK_DIV4'',
      Resolution = ''ADC_RESOLUTION_12B'', ScanConvMode = ''DISABLE'',
      ContinuousConvMode = ''DISABLE'', DiscontinuousConvMode = ''DISABLE'',
      ExternalTrigConv = ''ADC_SOFTWARE_START'',
      ExternalTrigConvEdge = ''ADC_EXTERNALTRIGCONVEDGE_NONE'',
      DataAlign = ''ADC_DATAALIGN_RIGHT'', NbrOfConversion = 1,
      DMAContinuousRequests = ''DISABLE'', EOCSelection = ''ADC_EOC_SINGLE_CONV''\<rparr>"



section \<open>Facts about rounding\<close>

text \<open>
  The search for the spacing stops at the binade of its argument, so that a number whose
  binade is known is rounded without running the search.
\<close>

lemma quantum_stop: "a < q * 2 ^ 24 \<Longrightarrow> quantum n q a = q"
  by (cases n) simp_all

lemma quantum_search:
  "k \<le> n \<Longrightarrow> q * 2 ^ (k + 23) \<le> a \<Longrightarrow> a < q * 2 ^ (k + 24) \<Longrightarrow> 0 < q
   \<Longrightarrow> quantum n q a = q * 2 ^ k"
proof (induction k arbitrary: n q)
  case 0
  then show ?case by (simp add: quantum_stop)
next
  case (Suc k)
  then obtain m where n: "n = Suc m" and km: "k \<le> m"
    by (cases n) auto
  have "(2::real) ^ 24 \<le> 2 ^ (Suc k + 23)"
    by (rule power_increasing) simp_all
  then have "q * 2 ^ 24 \<le> q * 2 ^ (Suc k + 23)"
    using Suc.prems(4) by (simp only: mult_le_cancel_left_pos)
  with Suc.prems(2) have ge: "\<not> a < q * 2 ^ 24"
    by linarith
  have "2 * q * 2 ^ (k + 23) = q * 2 ^ (Suc k + 23)"
    and "2 * q * 2 ^ (k + 24) = q * 2 ^ (Suc k + 24)"
    by (simp_all only: add_Suc power_Suc mult_ac)
  with Suc.prems(2,3) have lo: "2 * q * 2 ^ (k + 23) \<le> a" and hi: "a < 2 * q * 2 ^ (k + 24)"
    by (simp_all only:)
  have "quantum m (2 * q) a = (2 * q) * 2 ^ k"
    using Suc.prems(4) by (intro Suc.IH [OF km lo hi]) simp
  with ge n show ?case
    by simp
qed

lemma round_f32_in_binade:
  assumes "k \<le> 253" and "min_quantum * 2 ^ (k + 23) \<le> \<bar>x\<bar>"
    and "\<bar>x\<bar> < min_quantum * 2 ^ (k + 24)"
  shows "round_f32 x =
     (let q = min_quantum * 2 ^ k; r = of_int (round_half_even (\<bar>x\<bar> / q)) * q
      in if max_finite < r then (if x < 0 then NInf else PInf)
         else Fin (if x < 0 then - r else r))"
proof -
  have "quantum 253 min_quantum \<bar>x\<bar> = min_quantum * 2 ^ k"
    using assms by (intro quantum_search) (simp_all add: min_quantum_def)
  then show ?thesis
    unfolding round_f32_def Let_def by (simp only:)
qed

lemma round_f32_zero: "round_f32 0 = Fin 0"
proof -
  have "quantum 253 min_quantum 0 = min_quantum"
    by (rule quantum_stop) (simp add: min_quantum_def)
  then show ?thesis
    by (simp add: round_f32_def round_half_even_def max_finite_def)
qed

lemma round_f32_subnormal:
  assumes "\<bar>x\<bar> < min_quantum * 2 ^ 24"
  shows "round_f32 x =
     (let r = of_int (round_half_even (\<bar>x\<bar> / min_quantum)) * min_quantum
      in if max_finite < r then (if x < 0 then NInf else PInf)
         else Fin (if x < 0 then - r else r))"
proof -
  have "quantum 253 min_quantum \<bar>x\<bar> = min_quantum"
    using assms by (rule quantum_stop)
  then show ?thesis
    unfolding round_f32_def Let_def by (simp only:)
qed

text \<open>
  The rounding at known points: the two ties next to \<open>2^24\<close> go to the even
  neighbour, a negative number rounds as its magnitude, the largest binary32 number is
  kept, the midpoint above it overflows and the number just below that midpoint does
  not, the smallest subnormal number is kept and its half is rounded to zero.
\<close>

lemma round_tie_down: "round_f32 16777217 = Fin 16777216"
  by (subst round_f32_in_binade [of 150])
    (simp_all add: min_quantum_def max_finite_def round_half_even_def Let_def)

lemma round_tie_up: "round_f32 16777219 = Fin 16777220"
  by (subst round_f32_in_binade [of 150])
    (simp_all add: min_quantum_def max_finite_def round_half_even_def Let_def)

lemma round_negative: "round_f32 (- (1 / 10)) = Fin (- (13421773 / 134217728))"
  by (subst round_f32_in_binade [of 122])
    (simp_all add: min_quantum_def max_finite_def round_half_even_def Let_def)

lemma round_largest: "round_f32 ((2 ^ 24 - 1) * 2 ^ 104) = Fin ((2 ^ 24 - 1) * 2 ^ 104)"
  by (subst round_f32_in_binade [of 253])
    (simp_all add: min_quantum_def max_finite_def round_half_even_def Let_def)

lemma round_overflow: "round_f32 ((2 ^ 25 - 1) * 2 ^ 103) = PInf"
  by (subst round_f32_in_binade [of 253])
    (simp_all add: min_quantum_def max_finite_def round_half_even_def Let_def)

lemma round_below_overflow: "round_f32 ((2 ^ 26 - 3) * 2 ^ 102) = Fin ((2 ^ 24 - 1) * 2 ^ 104)"
  by (subst round_f32_in_binade [of 253])
    (simp_all add: min_quantum_def max_finite_def round_half_even_def Let_def)

lemma round_smallest: "round_f32 (1 / 2 ^ 149) = Fin (1 / 2 ^ 149)"
  by (subst round_f32_subnormal)
    (simp_all add: min_quantum_def max_finite_def round_half_even_def Let_def)

lemma round_underflow: "round_f32 (1 / 2 ^ 150) = Fin 0"
  by (subst round_f32_subnormal)
    (simp_all add: min_quantum_def max_finite_def round_half_even_def Let_def)

text \<open>The constants of the program, as binary32 numbers.\<close>

lemma f32_0: "f32 0 = Fin 0"
  by (simp add: f32_def round_f32_zero)

lemma f32_1: "f32 1 = Fin 1"
  unfolding f32_def
  by (subst round_f32_in_binade [of 126])
    (simp_all add: min_quantum_def max_finite_def round_half_even_def Let_def)

lemma f32_half: "f32 (1 / 2) = Fin (1 / 2)"
  unfolding f32_def
  by (subst round_f32_in_binade [of 125])
    (simp_all add: min_quantum_def max_finite_def round_half_even_def Let_def)

lemma f32_100: "f32 100 = Fin 100"
  unfolding f32_def
  by (subst round_f32_in_binade [of 132])
    (simp_all add: min_quantum_def max_finite_def round_half_even_def Let_def)

lemma f32_1000: "f32 1000 = Fin 1000"
  unfolding f32_def
  by (subst round_f32_in_binade [of 135])
    (simp_all add: min_quantum_def max_finite_def round_half_even_def Let_def)

lemma f32_tenth: "f32 (1 / 10) = Fin (13421773 / 134217728)"
  unfolding f32_def
  by (subst round_f32_in_binade [of 122])
    (simp_all add: min_quantum_def max_finite_def round_half_even_def Let_def)

lemma f32_fifth: "f32 (1 / 5) = Fin (13421773 / 67108864)"
  unfolding f32_def
  by (subst round_f32_in_binade [of 123])
    (simp_all add: min_quantum_def max_finite_def round_half_even_def Let_def)

lemma f32_twentieth: "f32 (1 / 20) = Fin (13421773 / 268435456)"
  unfolding f32_def
  by (subst round_f32_in_binade [of 121])
    (simp_all add: min_quantum_def max_finite_def round_half_even_def Let_def)

lemma f32_095: "f32 (19 / 20) = Fin (15938355 / 16777216)"
  unfolding f32_def
  by (subst round_f32_in_binade [of 125])
    (simp_all add: min_quantum_def max_finite_def round_half_even_def Let_def)

lemma f32_hundredth: "f32 (1 / 100) = Fin (5368709 / 536870912)"
  unfolding f32_def
  by (subst round_f32_in_binade [of 119])
    (simp_all add: min_quantum_def max_finite_def round_half_even_def Let_def)

lemma f32_thousandth: "f32 (1 / 1000) = Fin (8589935 / 8589934592)"
  unfolding f32_def
  by (subst round_f32_in_binade [of 116])
    (simp_all add: min_quantum_def max_finite_def round_half_even_def Let_def)

lemma f32_ten_thousandth: "f32 (1 / 10000) = Fin (13743895 / 137438953472)"
  unfolding f32_def
  by (subst round_f32_in_binade [of 112])
    (simp_all add: min_quantum_def max_finite_def round_half_even_def Let_def)

lemmas f32_values =
  f32_0 f32_1 f32_half f32_100 f32_1000 f32_tenth f32_fifth f32_twentieth f32_095
  f32_hundredth f32_thousandth f32_ten_thousandth

lemma MIN_DUTY_CYCLE_value: "MIN_DUTY_CYCLE = Fin (13421773 / 268435456)"
  by (simp add: MIN_DUTY_CYCLE_def f32_twentieth)

lemma MAX_DUTY_CYCLE_value: "MAX_DUTY_CYCLE = Fin (15938355 / 16777216)"
  by (simp add: MAX_DUTY_CYCLE_def f32_095)

lemma TARGET_EFFICIENCY_value: "TARGET_EFFICIENCY = Fin (15938355 / 16777216)"
  by (simp add: TARGET_EFFICIENCY_def f32_095)

lemma round_f32_not_NaN [simp]: "round_f32 x \<noteq> NaN"
  by (simp add: round_f32_def Let_def)

section \<open>Rounding is monotone\<close>

text \<open>
  Rounding to the nearest integer and the spacing both grow with the argument, and where
  the spacing changes there is a power of two that both roundings respect. So rounding
  to binary32 is monotone on the non-negative reals.
\<close>

lemma round_half_even_bounds:
  "\<lfloor>x\<rfloor> \<le> round_half_even x" "round_half_even x \<le> \<lfloor>x\<rfloor> + 1"
  by (simp_all add: round_half_even_def Let_def)

lemma round_half_even_mono:
  assumes "x \<le> y"
  shows "round_half_even x \<le> round_half_even y"
proof (cases "\<lfloor>x\<rfloor> = \<lfloor>y\<rfloor>")
  case True
  with assms show ?thesis
    by (auto simp add: round_half_even_def Let_def)
next
  case False
  with assms have "\<lfloor>x\<rfloor> < \<lfloor>y\<rfloor>"
    using floor_mono [of x y] by linarith
  with round_half_even_bounds(2) [of x] round_half_even_bounds(1) [of y] show ?thesis
    by linarith
qed

lemma round_half_even_of_int: "round_half_even (of_int n) = n"
  by (simp add: round_half_even_def)

lemma round_half_even_le: "x \<le> of_int n \<Longrightarrow> round_half_even x \<le> n"
  using round_half_even_mono [of x "of_int n"] by (simp add: round_half_even_of_int)

lemma round_half_even_ge: "of_int n \<le> x \<Longrightarrow> n \<le> round_half_even x"
  using round_half_even_mono [of "of_int n" x] by (simp add: round_half_even_of_int)

lemma quantum_ge: "0 < q \<Longrightarrow> q \<le> quantum n q a"
proof (induction n arbitrary: q)
  case 0
  then show ?case by simp
next
  case (Suc n)
  from Suc.IH [of "2 * q"] Suc.prems show ?case
    by simp
qed

lemma quantum_pos: "0 < q \<Longrightarrow> 0 < quantum n q a"
  using quantum_ge [of q n a] by linarith

lemma quantum_mono: "0 < q \<Longrightarrow> a \<le> b \<Longrightarrow> quantum n q a \<le> quantum n q b"
proof (induction n arbitrary: q)
  case 0
  then show ?case by simp
next
  case (Suc n)
  show ?case
  proof (cases "a < q * 2 ^ 24")
    case True
    with quantum_ge [OF Suc.prems(1), of "Suc n" b] show ?thesis
      by simp
  next
    case False
    with Suc.prems Suc.IH [of "2 * q"] show ?thesis
      by simp
  qed
qed

lemma quantum_lower: "q * 2 ^ 23 \<le> b \<Longrightarrow> quantum n q b * 2 ^ 23 \<le> b"
proof (induction n arbitrary: q)
  case 0
  then show ?case by simp
next
  case (Suc n)
  from Suc.IH [of "2 * q"] Suc.prems show ?case
    by simp
qed

lemma quantum_differ:
  assumes "0 < q" and "a \<le> b" and "quantum n q a < quantum n q b"
  shows "a < quantum n q a * 2 ^ 24 \<and> quantum n q b * 2 ^ 23 \<le> b
     \<and> 2 * quantum n q a \<le> quantum n q b"
  using assms
proof (induction n arbitrary: q)
  case 0
  then show ?case by simp
next
  case (Suc n)
  show ?case
  proof (cases "a < q * 2 ^ 24")
    case True
    with Suc.prems(3) have b: "\<not> b < q * 2 ^ 24"
      by (auto split: if_splits)
    then have "2 * q * 2 ^ 23 \<le> b"
      by simp
    then have "quantum n (2 * q) b * 2 ^ 23 \<le> b"
      by (rule quantum_lower)
    moreover have "2 * q \<le> quantum n (2 * q) b"
      using Suc.prems(1) by (intro quantum_ge) simp
    ultimately show ?thesis
      using True b by simp
  next
    case False
    with Suc.prems Suc.IH [of "2 * q"] show ?thesis
      by simp
  qed
qed

text \<open>The magnitude of the rounded value grows with the magnitude of the argument.\<close>

lemma rounded_magnitude_mono:
  assumes "0 \<le> a" and "a \<le> b"
  shows "of_int (round_half_even (a / quantum 253 min_quantum a)) * quantum 253 min_quantum a
     \<le> of_int (round_half_even (b / quantum 253 min_quantum b)) * quantum 253 min_quantum b"
proof -
  define qa qb where "qa = quantum 253 min_quantum a" and "qb = quantum 253 min_quantum b"
  have pos: "0 < min_quantum"
    by (simp add: min_quantum_def)
  then have qa: "0 < qa" and qb: "0 < qb"
    by (simp_all add: qa_def qb_def quantum_pos)
  have le: "qa \<le> qb"
    unfolding qa_def qb_def using pos assms(2) by (rule quantum_mono)
  show ?thesis
  proof (cases "qa = qb")
    case True
    have "a / qa \<le> b / qa"
      using assms(2) qa by (simp add: divide_right_mono)
    then have "round_half_even (a / qa) \<le> round_half_even (b / qa)"
      by (rule round_half_even_mono)
    then have "real_of_int (round_half_even (a / qa)) * qa \<le> real_of_int (round_half_even (b / qa)) * qa"
      using qa by simp
    with True show ?thesis
      by (simp add: qa_def qb_def)
  next
    case False
    with le have "qa < qb"
      by simp
    with quantum_differ [OF pos assms(2), of 253]
    have a: "a < qa * 2 ^ 24" and b: "qb * 2 ^ 23 \<le> b" and two: "2 * qa \<le> qb"
      by (simp_all add: qa_def qb_def)
    have "a / qa \<le> of_int (2 ^ 24)"
      using a qa by (simp add: pos_divide_le_eq mult.commute)
    then have "round_half_even (a / qa) \<le> 2 ^ 24"
      by (rule round_half_even_le)
    then have "real_of_int (round_half_even (a / qa)) \<le> real_of_int (2 ^ 24)"
      by (simp only: of_int_le_iff)
    then have "real_of_int (round_half_even (a / qa)) \<le> 2 ^ 24"
      by simp
    then have up: "real_of_int (round_half_even (a / qa)) * qa \<le> 2 ^ 24 * qa"
      using qa by simp
    have "of_int (2 ^ 23) \<le> b / qb"
      using b qb by (simp add: pos_le_divide_eq)
    then have "2 ^ 23 \<le> round_half_even (b / qb)"
      by (rule round_half_even_ge)
    then have "real_of_int (2 ^ 23) \<le> real_of_int (round_half_even (b / qb))"
      by (simp only: of_int_le_iff)
    then have "2 ^ 23 \<le> real_of_int (round_half_even (b / qb))"
      by simp
    then have "2 ^ 23 * qb \<le> real_of_int (round_half_even (b / qb)) * qb"
      using qb by simp
    with up two show ?thesis
      by (simp add: qa_def qb_def)
  qed
qed

lemma round_f32_nonneg:
  "0 \<le> x \<Longrightarrow> round_f32 x =
     (if max_finite < of_int (round_half_even (x / quantum 253 min_quantum x)) * quantum 253 min_quantum x
      then PInf
      else Fin (of_int (round_half_even (x / quantum 253 min_quantum x)) * quantum 253 min_quantum x))"
  by (simp add: round_f32_def Let_def)

lemma round_f32_mono:
  assumes "0 \<le> x" and "x \<le> y" and "round_f32 y = Fin v"
  shows "\<exists>u. round_f32 x = Fin u \<and> 0 \<le> u \<and> u \<le> v"
proof -
  let ?m = "\<lambda>a. of_int (round_half_even (a / quantum 253 min_quantum a)) * quantum 253 min_quantum a"
  have y: "0 \<le> y"
    using assms by linarith
  from assms(3) have fin: "\<not> max_finite < ?m y" and v: "v = ?m y"
    by (simp_all add: round_f32_nonneg [OF y] split: if_splits)
  have le: "?m x \<le> ?m y"
    using assms(1,2) by (rule rounded_magnitude_mono)
  have "0 \<le> x / quantum 253 min_quantum x"
    using assms(1) quantum_pos [of min_quantum 253 x] by (simp add: min_quantum_def)
  then have "0 \<le> round_half_even (x / quantum 253 min_quantum x)"
    using round_half_even_ge [of 0] by simp
  then have nonneg: "0 \<le> ?m x"
    using quantum_pos [of min_quantum 253 x] by (simp add: min_quantum_def)
  from le fin have "round_f32 x = Fin (?m x)"
    by (simp add: round_f32_nonneg [OF assms(1)])
  with le v nonneg show ?thesis
    by simp
qed

section \<open>Sampling\<close>

text \<open>The equation of the sampling loop is unfolded by hand, one iteration at a time.\<close>

declare read_adc_loop.simps [simp del]

text \<open>
  Sampling changes the buffer and the converter only: every other variable, the duty
  cycle among them, is as before.
\<close>

lemma read_adc_loop_frame:
  "\<exists>buf. snd (read_adc_loop hadc i acc s) =
     s\<lparr>adc_buffer := buf, adc_conversions := adc_conversions s + (ADC_BUFFER_SIZE - i)\<rparr>"
proof (induction hadc i acc s rule: read_adc_loop.induct)
  case (1 hadc i sum_v s)
  show ?case
  proof (cases "i < ADC_BUFFER_SIZE")
    case True
    define s3 where "s3 = s\<lparr>adc_buffer := (adc_buffer s)(i := ucast (HAL_ADC_GetValue hadc s))\<rparr>"
    define s4 where "s4 = s3\<lparr>adc_conversions := Suc (adc_conversions s3)\<rparr>"
    have unfold: "read_adc_loop hadc i sum_v s =
        read_adc_loop hadc (i + 1) (sum_v + ucast (adc_buffer s3 i)) s4"
      using True
      by (subst read_adc_loop.simps)
        (simp add: Let_def s3_def s4_def HAL_ADC_Stop_def HAL_ADC_Start_def
          HAL_ADC_PollForConversion_def)
    from "1.IH" [OF True refl refl refl refl refl]
    obtain buf where "snd (read_adc_loop hadc (i + 1) (sum_v + ucast (adc_buffer s3 i)) s4) =
      s4\<lparr>adc_buffer := buf, adc_conversions := adc_conversions s4 + (ADC_BUFFER_SIZE - (i + 1))\<rparr>"
      by (auto simp add: s3_def s4_def HAL_ADC_Stop_def HAL_ADC_Start_def
          HAL_ADC_PollForConversion_def)
    then have "snd (read_adc_loop hadc i sum_v s) =
        s\<lparr>adc_buffer := buf, adc_conversions := adc_conversions s + (ADC_BUFFER_SIZE - i)\<rparr>"
      using True by (simp add: unfold s3_def s4_def)
    then show ?thesis by (rule exI [of _ buf])
  next
    case False
    then have "snd (read_adc_loop hadc i sum_v s) =
        s\<lparr>adc_buffer := adc_buffer s, adc_conversions := adc_conversions s + (ADC_BUFFER_SIZE - i)\<rparr>"
      by (subst read_adc_loop.simps) simp
    then show ?thesis by (rule exI [of _ "adc_buffer s"])
  qed
qed

lemma read_adc_safely_frame:
  "\<exists>buf. snd (read_adc_safely hadc s) =
     s\<lparr>adc_buffer := buf, adc_conversions := adc_conversions s + ADC_BUFFER_SIZE\<rparr>"
  using read_adc_loop_frame [of hadc 0 0 s]
  by (simp add: read_adc_safely_def split_beta Let_def)

text \<open>
  When the converter delivers the same value at every conversion, the average that
  \<open>read_adc_safely\<close> returns is that value (truncated to 16 bits).
\<close>

lemma unat_ucast_16_32: "unat (ucast (w :: 16 word) :: 32 word) = unat w"
proof -
  have "unat w < 2 ^ 32"
    using unsigned_less [of w, where 'a = nat] by simp
  then show ?thesis
    by (simp add: unsigned_ucast_eq take_bit_nat_eq_self)
qed

lemma sixteen_times_div:
  "ucast ((16 * (ucast (w :: 16 word) :: 32 word)) div 16) = w"
proof -
  have "unat w < 2 ^ 16"
    using unsigned_less [of w, where 'a = nat] by simp
  then have "unat (16 * (ucast w :: 32 word)) = 16 * unat w"
    by (simp add: unat_word_ariths unat_ucast_16_32)
  then have "unat ((16 * (ucast w :: 32 word)) div 16) = unat (ucast w :: 32 word)"
    by (simp add: unat_div unat_ucast_16_32)
  then have "(16 * (ucast w :: 32 word)) div 16 = ucast w"
    by (rule unsigned_word_eqI)
  then show ?thesis
    by (simp add: ucast_up_ucast_id is_up)
qed

lemma read_adc_loop_constant:
  assumes "adc_input s = (\<lambda>k. v)"
  shows "fst (read_adc_loop hadc i acc s) =
     acc + of_nat (ADC_BUFFER_SIZE - i) * ucast (ucast v :: 16 word)"
  using assms
proof (induction hadc i acc s rule: read_adc_loop.induct)
  case (1 hadc i sum_v s)
  show ?case
  proof (cases "i < ADC_BUFFER_SIZE")
    case True
    have "ADC_BUFFER_SIZE - i = Suc (ADC_BUFFER_SIZE - (i + 1))"
      using True by simp
    then have step: "of_nat (ADC_BUFFER_SIZE - i) = (1 :: 32 word) + of_nat (ADC_BUFFER_SIZE - (i + 1))"
      by (simp only: of_nat_Suc)
    from "1.IH" [OF True refl refl refl refl refl] "1.prems" True show ?thesis
      by (subst read_adc_loop.simps)
        (simp add: Let_def HAL_ADC_Stop_def HAL_ADC_Start_def HAL_ADC_PollForConversion_def
          HAL_ADC_GetValue_def step algebra_simps)
  next
    case False
    then show ?thesis
      by (subst read_adc_loop.simps) simp
  qed
qed

lemma read_adc_safely_constant:
  assumes "adc_input s = (\<lambda>k. v)"
  shows "fst (read_adc_safely hadc s) = ucast v"
  using read_adc_loop_constant [OF assms, of hadc 0 0] sixteen_times_div [of "ucast v"]
  by (simp add: read_adc_safely_def split_beta ADC_BUFFER_SIZE_def)

section \<open>Parameter estimation\<close>

text \<open>
  With a handle, \<open>measure_electrical_parameters\<close> samples, stores the three values
  computed from the raw sample, and returns whether all three lie in their ranges. The
  computed values are never NaN, so that the six comparisons of the program say exactly
  that.
\<close>

lemma fadd_Fin_not_NaN: "a \<noteq> NaN \<Longrightarrow> fadd a (Fin c) \<noteq> NaN"
  by (cases a) simp_all

lemma range_test:
  "v \<noteq> NaN \<Longrightarrow> (flt v (Fin l) \<or> fgt v (Fin h)) = (\<not> lies_between (Fin l) (Fin h) v)"
  by (cases v) (auto simp add: fgt_def lies_between_def lies_in_def)

lemma estimate_not_NaN:
  "fst (estimate raw) \<noteq> NaN" "fst (snd (estimate raw)) \<noteq> NaN" "snd (snd (estimate raw)) \<noteq> NaN"
  by (simp_all add: estimate_def of_u16_def f32_values fadd_Fin_not_NaN)

lemma measure_electrical_parameters_Some:
  "measure_electrical_parameters (Some h) s =
     (all_in_range (estimate (fst (read_adc_safely h s))),
      (snd (read_adc_safely h s))
        \<lparr>L_mH := fst (estimate (fst (read_adc_safely h s))),
         C_uF := fst (snd (estimate (fst (read_adc_safely h s)))),
         ESR_mOhm := snd (snd (estimate (fst (read_adc_safely h s))))\<rparr>)"
  by (simp add: measure_electrical_parameters_def split_beta Let_def all_in_range_def
      estimate_def f32_values of_u16_def range_test fadd_Fin_not_NaN)

text \<open>
  C9. With a NULL handle, \<open>measure_electrical_parameters\<close> returns false and leaves the
  whole state as it was: the three stored parameters are unchanged and no conversion was
  made. This is the call the loop of \<open>main\<close> makes, through \<open>control_loop None\<close>, so
  that an iteration of that loop changes neither the stored parameters nor the count of
  conversions.
\<close>

theorem C9_null_handle:
  "measure_electrical_parameters None s = (False, s)
   \<and> L_mH (snd (measure_electrical_parameters None s)) = L_mH s
   \<and> C_uF (snd (measure_electrical_parameters None s)) = C_uF s
   \<and> ESR_mOhm (snd (measure_electrical_parameters None s)) = ESR_mOhm s
   \<and> adc_conversions (snd (measure_electrical_parameters None s)) = adc_conversions s
   \<and> main_step i (In_main_loop, s) =
       (In_main_loop, control_loop None (loop_tick i) (adjust_tick i) s)
   \<and> parameters (control_loop None current_time adjust_time s) = parameters s
   \<and> adc_conversions (control_loop None current_time adjust_time s) = adc_conversions s"
  by (simp add: measure_electrical_parameters_def control_loop_def measurement_phase_def
      adjust_duty_cycle_def parameters_def Let_def)

subsection \<open>The transforms of the estimator\<close>

text \<open>
  Each linear transform of the estimator is monotone in the raw sample, so its values at
  the raw samples 0, 497, 498 and 65535 bound its values everywhere.
\<close>

lemma linear_transform_mono:
  assumes "0 \<le> c" and "0 \<le> off" and "0 \<le> r1" and "r1 \<le> r2"
    and "linear_transform c off r2 = Fin v2"
  shows "\<exists>v1. linear_transform c off r1 = Fin v1 \<and> v1 \<le> v2"
proof -
  from assms(5) obtain p2 where p2: "round_f32 (r2 * c) = Fin p2"
    and v2: "round_f32 (p2 + off) = Fin v2"
    by (cases "round_f32 (r2 * c)") (simp_all add: linear_transform_def)
  have "0 \<le> r1 * c" and "r1 * c \<le> r2 * c"
    using assms(1,3,4) by (simp_all add: mult_right_mono)
  from round_f32_mono [OF this p2] obtain p1 where p1: "round_f32 (r1 * c) = Fin p1"
    and "0 \<le> p1" and "p1 \<le> p2"
    by blast
  then have "0 \<le> p1 + off" and "p1 + off \<le> p2 + off"
    using assms(2) by simp_all
  from round_f32_mono [OF this v2] obtain v1 where "round_f32 (p1 + off) = Fin v1" and "v1 \<le> v2"
    by blast
  with p1 show ?thesis
    by (simp add: linear_transform_def)
qed

lemma linear_transform_bounds:
  assumes "0 \<le> c" and "0 \<le> off" and "0 \<le> r_lo" and "r_lo \<le> r" and "r \<le> r_hi"
    and lo: "linear_transform c off r_lo = Fin v_lo"
    and hi: "linear_transform c off r_hi = Fin v_hi"
  shows "\<exists>v. linear_transform c off r = Fin v \<and> v_lo \<le> v \<and> v \<le> v_hi"
proof -
  have "0 \<le> r"
    using assms(3,4) by linarith
  from linear_transform_mono [OF assms(1,2) this assms(5) hi]
  obtain v where v: "linear_transform c off r = Fin v" and "v \<le> v_hi"
    by blast
  from linear_transform_mono [OF assms(1,2,3,4) v] lo have "v_lo \<le> v"
    by simp
  with v \<open>v \<le> v_hi\<close> show ?thesis
    by simp
qed

lemma round_L_0_sum: "round_f32 (13421773 / 134217728) = Fin (13421773 / 134217728)"
  by (subst round_f32_in_binade [of 122])
    (simp_all add: min_quantum_def max_finite_def round_half_even_def Let_def)

lemma round_C_0_sum: "round_f32 1 = Fin 1"
  by (subst round_f32_in_binade [of 126])
    (simp_all add: min_quantum_def max_finite_def round_half_even_def Let_def)

lemma round_ESR_0_sum: "round_f32 (1 / 2) = Fin (1 / 2)"
  by (subst round_f32_in_binade [of 125])
    (simp_all add: min_quantum_def max_finite_def round_half_even_def Let_def)

lemma round_L_497_product: "round_f32 (6670621181 / 134217728) = Fin (13028557 / 262144)"
  by (subst round_f32_in_binade [of 131])
    (simp_all add: min_quantum_def max_finite_def round_half_even_def Let_def)

lemma round_L_497_sum: "round_f32 (6684042957 / 134217728) = Fin (13054771 / 262144)"
  by (subst round_f32_in_binade [of 131])
    (simp_all add: min_quantum_def max_finite_def round_half_even_def Let_def)

lemma round_C_497_product: "round_f32 (6670621181 / 268435456) = Fin (13028557 / 524288)"
  by (subst round_f32_in_binade [of 130])
    (simp_all add: min_quantum_def max_finite_def round_half_even_def Let_def)

lemma round_C_497_sum: "round_f32 (13552845 / 524288) = Fin (13552845 / 524288)"
  by (subst round_f32_in_binade [of 130])
    (simp_all add: min_quantum_def max_finite_def round_half_even_def Let_def)

lemma round_ESR_497_product: "round_f32 (6670621181 / 67108864) = Fin (13028557 / 131072)"
  by (subst round_f32_in_binade [of 132])
    (simp_all add: min_quantum_def max_finite_def round_half_even_def Let_def)

lemma round_ESR_497_sum: "round_f32 (13094093 / 131072) = Fin (13094093 / 131072)"
  by (subst round_f32_in_binade [of 132])
    (simp_all add: min_quantum_def max_finite_def round_half_even_def Let_def)

lemma round_ESR_498_product: "round_f32 (3342021477 / 33554432) = Fin (13054771 / 131072)"
  by (subst round_f32_in_binade [of 132])
    (simp_all add: min_quantum_def max_finite_def round_half_even_def Let_def)

lemma round_ESR_498_sum: "round_f32 (13120307 / 131072) = Fin (13120307 / 131072)"
  by (subst round_f32_in_binade [of 132])
    (simp_all add: min_quantum_def max_finite_def round_half_even_def Let_def)

lemma round_L_65535_product: "round_f32 (879595893555 / 134217728) = Fin (13107 / 2)"
  by (subst round_f32_in_binade [of 138])
    (simp_all add: min_quantum_def max_finite_def round_half_even_def Let_def)

lemma round_L_65535_sum: "round_f32 (879609302221 / 134217728) = Fin (13421773 / 2048)"
  by (subst round_f32_in_binade [of 138])
    (simp_all add: min_quantum_def max_finite_def round_half_even_def Let_def)

lemma round_C_65535_product: "round_f32 (879595893555 / 268435456) = Fin (13107 / 4)"
  by (subst round_f32_in_binade [of 137])
    (simp_all add: min_quantum_def max_finite_def round_half_even_def Let_def)

lemma round_C_65535_sum: "round_f32 (13111 / 4) = Fin (13111 / 4)"
  by (subst round_f32_in_binade [of 137])
    (simp_all add: min_quantum_def max_finite_def round_half_even_def Let_def)

lemma round_ESR_65535_product: "round_f32 (879595893555 / 67108864) = Fin 13107"
  by (subst round_f32_in_binade [of 139])
    (simp_all add: min_quantum_def max_finite_def round_half_even_def Let_def)

lemma round_ESR_65535_sum: "round_f32 (26215 / 2) = Fin (26215 / 2)"
  by (subst round_f32_in_binade [of 139])
    (simp_all add: min_quantum_def max_finite_def round_half_even_def Let_def)

lemma transform_L_0: "linear_transform (13421773 / 134217728) (13421773 / 134217728) 0 = Fin (13421773 / 134217728)"
  by (simp add: linear_transform_def round_f32_zero round_L_0_sum)

lemma transform_C_0: "linear_transform (13421773 / 268435456) (1) 0 = Fin (1)"
  by (simp add: linear_transform_def round_f32_zero round_C_0_sum)

lemma transform_ESR_0: "linear_transform (13421773 / 67108864) (1 / 2) 0 = Fin (1 / 2)"
  by (simp add: linear_transform_def round_f32_zero round_ESR_0_sum)

lemma transform_L_497: "linear_transform (13421773 / 134217728) (13421773 / 134217728) 497 = Fin (13054771 / 262144)"
  by (simp add: linear_transform_def round_L_497_product round_L_497_sum)

lemma transform_C_497: "linear_transform (13421773 / 268435456) (1) 497 = Fin (13552845 / 524288)"
  by (simp add: linear_transform_def round_C_497_product round_C_497_sum)

lemma transform_ESR_497: "linear_transform (13421773 / 67108864) (1 / 2) 497 = Fin (13094093 / 131072)"
  by (simp add: linear_transform_def round_ESR_497_product round_ESR_497_sum)

lemma transform_ESR_498: "linear_transform (13421773 / 67108864) (1 / 2) 498 = Fin (13120307 / 131072)"
  by (simp add: linear_transform_def round_ESR_498_product round_ESR_498_sum)

lemma transform_L_65535: "linear_transform (13421773 / 134217728) (13421773 / 134217728) 65535 = Fin (13421773 / 2048)"
  by (simp add: linear_transform_def round_L_65535_product round_L_65535_sum)

lemma transform_C_65535: "linear_transform (13421773 / 268435456) (1) 65535 = Fin (13111 / 4)"
  by (simp add: linear_transform_def round_C_65535_product round_C_65535_sum)

lemma transform_ESR_65535: "linear_transform (13421773 / 67108864) (1 / 2) 65535 = Fin (26215 / 2)"
  by (simp add: linear_transform_def round_ESR_65535_product round_ESR_65535_sum)

lemma estimate_transforms:
  "estimate raw =
     (linear_transform (13421773 / 134217728) (13421773 / 134217728) (real (unat raw)),
      linear_transform (13421773 / 268435456) 1 (real (unat raw)),
      linear_transform (13421773 / 67108864) (1 / 2) (real (unat raw)))"
  by (simp add: estimate_def linear_transform_def of_u16_def f32_values)

lemma ranges_Fin:
  "all_in_range (Fin l, Fin c, Fin e) =
     (5368709 / 536870912 \<le> l \<and> l \<le> 100 \<and> 13421773 / 134217728 \<le> c \<and> c \<le> 1000
      \<and> 0 \<le> e \<and> e \<le> 100)"
  "all_strictly_in_range (Fin l, Fin c, Fin e) =
     (5368709 / 536870912 < l \<and> l < 100 \<and> 13421773 / 134217728 < c \<and> c < 1000
      \<and> 0 < e \<and> e < 100)"
  "all_in_decimal_range (Fin l, Fin c, Fin e) =
     (1 / 100 \<le> l \<and> l \<le> 100 \<and> 1 / 10 \<le> c \<and> c \<le> 1000 \<and> 0 \<le> e \<and> e \<le> 100)"
  "all_strictly_in_decimal_range (Fin l, Fin c, Fin e) =
     (1 / 100 < l \<and> l < 100 \<and> 1 / 10 < c \<and> c < 1000 \<and> 0 < e \<and> e < 100)"
  by (auto simp add: all_in_range_def all_strictly_in_range_def all_in_decimal_range_def
      all_strictly_in_decimal_range_def f32_values lies_between_def
      lies_strictly_between_def lies_in_def lies_strictly_in_def)

text \<open>
  All three values are in range exactly for the raw samples up to 497 (from 498 on the
  resistance is above 100), and then none of them is on a bound.
\<close>

lemma estimate_succeeds_iff:
  "all_in_range (estimate raw) = (unat raw \<le> 497)"
  "all_strictly_in_range (estimate raw) = (unat raw \<le> 497)"
  "all_in_decimal_range (estimate raw) = (unat raw \<le> 497)"
  "all_strictly_in_decimal_range (estimate raw) = (unat raw \<le> 497)"
proof -
  define r where "r = real (unat raw)"
  have "unat raw < 2 ^ 16"
    using unsigned_less [of raw, where 'a = nat] by simp
  then have "unat raw \<le> 65535"
    by simp
  then have "real (unat raw) \<le> real 65535"
    by (rule of_nat_mono)
  then have top: "r \<le> 65535"
    unfolding r_def by simp
  have bot: "0 \<le> r"
    unfolding r_def by (rule of_nat_0_le_iff)
  have est: "estimate raw =
     (linear_transform (13421773 / 134217728) (13421773 / 134217728) r,
      linear_transform (13421773 / 268435456) 1 r,
      linear_transform (13421773 / 67108864) (1 / 2) r)"
    unfolding r_def by (rule estimate_transforms)
  have "all_in_range (estimate raw) = (unat raw \<le> 497)
      \<and> all_strictly_in_range (estimate raw) = (unat raw \<le> 497)
      \<and> all_in_decimal_range (estimate raw) = (unat raw \<le> 497)
      \<and> all_strictly_in_decimal_range (estimate raw) = (unat raw \<le> 497)"
  proof (cases "unat raw \<le> 497")
    case True
    then have "real (unat raw) \<le> real 497"
      by (rule of_nat_mono)
    then have r: "r \<le> 497"
      unfolding r_def by simp
    from linear_transform_bounds [OF _ _ _ bot r transform_L_0 transform_L_497]
    obtain l where l: "linear_transform (13421773 / 134217728) (13421773 / 134217728) r = Fin l"
      "13421773 / 134217728 \<le> l" "l \<le> 13054771 / 262144"
      by auto
    from linear_transform_bounds [OF _ _ _ bot r transform_C_0 transform_C_497]
    obtain c where c: "linear_transform (13421773 / 268435456) 1 r = Fin c"
      "1 \<le> c" "c \<le> 13552845 / 524288"
      by auto
    from linear_transform_bounds [OF _ _ _ bot r transform_ESR_0 transform_ESR_497]
    obtain e where e: "linear_transform (13421773 / 67108864) (1 / 2) r = Fin e"
      "1 / 2 \<le> e" "e \<le> 13094093 / 131072"
      by auto
    from l c e True show ?thesis
      by (simp add: est ranges_Fin)
  next
    case False
    then have "498 \<le> unat raw"
      by simp
    then have "real 498 \<le> real (unat raw)"
      by (rule of_nat_mono)
    then have r: "498 \<le> r"
      unfolding r_def by simp
    from linear_transform_bounds [OF _ _ _ bot top transform_L_0 transform_L_65535]
    obtain l where l: "linear_transform (13421773 / 134217728) (13421773 / 134217728) r = Fin l"
      by auto
    from linear_transform_bounds [OF _ _ _ bot top transform_C_0 transform_C_65535]
    obtain c where c: "linear_transform (13421773 / 268435456) 1 r = Fin c"
      by auto
    from linear_transform_bounds [OF _ _ _ r top transform_ESR_498 transform_ESR_65535]
    obtain e where e: "linear_transform (13421773 / 67108864) (1 / 2) r = Fin e"
      "13120307 / 131072 \<le> e"
      by auto
    from l c e False show ?thesis
      by (simp add: est ranges_Fin)
  qed
  then show "all_in_range (estimate raw) = (unat raw \<le> 497)"
    and "all_strictly_in_range (estimate raw) = (unat raw \<le> 497)"
    and "all_in_decimal_range (estimate raw) = (unat raw \<le> 497)"
    and "all_strictly_in_decimal_range (estimate raw) = (unat raw \<le> 497)"
    by simp_all
qed

text \<open>
  C4. With a handle, the estimator stores \<open>raw * 0.1 + 0.1\<close>, \<open>raw * 0.05 + 1.0\<close> and
  \<open>raw * 0.2 + 0.5\<close> (in binary32 arithmetic) for the raw sample it read, and it
  succeeds exactly when all three lie in their ranges: one value out of its range fails
  the whole estimation. For every 16-bit raw sample this is the same whether the bounds
  of the ranges are counted in or not, and whether they are the binary32 constants of
  the program or the decimal numbers they are written as; it is the case exactly for the
  raw samples up to 497.
\<close>

theorem C4_estimation:
  "parameters (snd (measure_electrical_parameters (Some h) s)) =
     estimate (fst (read_adc_safely h s))
   \<and> fst (measure_electrical_parameters (Some h) s) =
       all_in_range (estimate (fst (read_adc_safely h s)))
   \<and> estimate raw =
       (fadd (fmul (of_u16 raw) (f32 0.1)) (f32 0.1),
        fadd (fmul (of_u16 raw) (f32 0.05)) (f32 1),
        fadd (fmul (of_u16 raw) (f32 0.2)) (f32 0.5))
   \<and> all_in_range (estimate raw) = all_strictly_in_range (estimate raw)
   \<and> all_in_range (estimate raw) = all_in_decimal_range (estimate raw)
   \<and> all_in_range (estimate raw) = all_strictly_in_decimal_range (estimate raw)
   \<and> all_in_range (estimate raw) = (unat raw \<le> 497)"
  by (simp add: measure_electrical_parameters_Some parameters_def estimate_succeeds_iff)
    (simp add: estimate_def)

subsection \<open>Concrete runs of the estimator\<close>

text \<open>
  The three values computed from the raw samples 2048 and 100, in binary32 arithmetic.
  From 2048: 204.9 and 410.1, above the upper bound 100 of their ranges, and 103.4. From
  100: 10.1, 6.0 and 20.5, all three in range.
\<close>

lemma round_L_2048_product: "round_f32 (13421773 / 65536) = Fin (13421773 / 65536)"
  by (subst round_f32_in_binade [of 133])
    (simp_all add: min_quantum_def max_finite_def round_half_even_def Let_def)

lemma round_L_2048_sum: "round_f32 (27501212877 / 134217728) = Fin (13428327 / 65536)"
  by (subst round_f32_in_binade [of 133])
    (simp_all add: min_quantum_def max_finite_def round_half_even_def Let_def)

lemma round_C_2048_product: "round_f32 (13421773 / 131072) = Fin (13421773 / 131072)"
  by (subst round_f32_in_binade [of 132])
    (simp_all add: min_quantum_def max_finite_def round_half_even_def Let_def)

lemma round_C_2048_sum: "round_f32 (13552845 / 131072) = Fin (13552845 / 131072)"
  by (subst round_f32_in_binade [of 132])
    (simp_all add: min_quantum_def max_finite_def round_half_even_def Let_def)

lemma round_ESR_2048_product: "round_f32 (13421773 / 32768) = Fin (13421773 / 32768)"
  by (subst round_f32_in_binade [of 134])
    (simp_all add: min_quantum_def max_finite_def round_half_even_def Let_def)

lemma round_ESR_2048_sum: "round_f32 (13438157 / 32768) = Fin (13438157 / 32768)"
  by (subst round_f32_in_binade [of 134])
    (simp_all add: min_quantum_def max_finite_def round_half_even_def Let_def)

lemma estimate_2048:
  "estimate 2048 = (Fin (13428327 / 65536), Fin (13552845 / 131072), Fin (13438157 / 32768))"
  by (simp add: estimate_def of_u16_def f32_values
      round_L_2048_product
      round_L_2048_sum
      round_C_2048_product
      round_C_2048_sum
      round_ESR_2048_product
      round_ESR_2048_sum)

lemma round_L_100_product: "round_f32 (335544325 / 33554432) = Fin 10"
  by (subst round_f32_in_binade [of 129])
    (simp_all add: min_quantum_def max_finite_def round_half_even_def Let_def)

lemma round_L_100_sum: "round_f32 (1355599053 / 134217728) = Fin (5295309 / 524288)"
  by (subst round_f32_in_binade [of 129])
    (simp_all add: min_quantum_def max_finite_def round_half_even_def Let_def)

lemma round_C_100_product: "round_f32 (335544325 / 67108864) = Fin 5"
  by (subst round_f32_in_binade [of 128])
    (simp_all add: min_quantum_def max_finite_def round_half_even_def Let_def)

lemma round_C_100_sum: "round_f32 6 = Fin 6"
  by (subst round_f32_in_binade [of 128])
    (simp_all add: min_quantum_def max_finite_def round_half_even_def Let_def)

lemma round_ESR_100_product: "round_f32 (335544325 / 16777216) = Fin 20"
  by (subst round_f32_in_binade [of 130])
    (simp_all add: min_quantum_def max_finite_def round_half_even_def Let_def)

lemma round_ESR_100_sum: "round_f32 (41 / 2) = Fin (41 / 2)"
  by (subst round_f32_in_binade [of 130])
    (simp_all add: min_quantum_def max_finite_def round_half_even_def Let_def)

lemma estimate_100:
  "estimate 100 = (Fin (5295309 / 524288), Fin (6), Fin (41 / 2))"
  by (simp add: estimate_def of_u16_def f32_values
      round_L_100_product
      round_L_100_sum
      round_C_100_product
      round_C_100_sum
      round_ESR_100_product
      round_ESR_100_sum)

lemma lies_between_Fin_Fin: "lies_between (Fin l) (Fin h) (Fin x) = (l \<le> x \<and> x \<le> h)"
  by (simp add: lies_between_def lies_in_def)

lemma not_all_in_range_2048: "\<not> all_in_range (estimate 2048)"
  by (simp add: estimate_2048 all_in_range_def f32_values lies_between_Fin_Fin)

lemma all_in_range_100: "all_in_range (estimate 100)"
  by (simp add: estimate_100 all_in_range_def f32_values lies_between_Fin_Fin)

lemma measure_100:
  assumes "adc_input s = (\<lambda>k. 100)"
  shows "fst (measure_electrical_parameters (Some h) s) = True"
    and "parameters (snd (measure_electrical_parameters (Some h) s)) =
      (Fin (5295309 / 524288), Fin 6, Fin (41 / 2))"
  using read_adc_safely_constant [OF assms, of h]
  by (simp_all add: measure_electrical_parameters_Some parameters_def estimate_100
      all_in_range_def f32_values lies_between_Fin_Fin)


subsection \<open>What a failed estimation stores\<close>




section \<open>The efficiency model\<close>

text \<open>
  Clamping between two finite bounds gives a finite number between them, whatever is
  clamped: an infinity goes to the nearer bound, a NaN to the upper bound.
\<close>

lemma clamp_lies_in:
  assumes "lo \<le> hi"
  shows "lies_in lo hi (clamp x (Fin lo) (Fin hi))"
proof (cases x)
  case (Fin v)
  with assms show ?thesis
    by (simp add: clamp_def fmaxf_def fminf_def lies_in_def)
next
  case PInf
  with assms show ?thesis
    by (simp add: clamp_def fmaxf_def fminf_def lies_in_def)
next
  case NInf
  with assms show ?thesis
    by (simp add: clamp_def fmaxf_def fminf_def lies_in_def)
next
  case NaN
  with assms show ?thesis
    by (simp add: clamp_def fmaxf_def fminf_def lies_in_def)
qed

lemma clamp_finite:
  "clamp (Fin x) (Fin lo) (Fin hi) = Fin (max lo (min hi x))"
  by (simp add: clamp_def fmaxf_def fminf_def max_def min_def)

lemma calculate_efficiency_model:
  "fst (calculate_efficiency inductance capacitance esr s) =
     efficiency_model inductance esr (duty_cycle s)"
  by (simp add: calculate_efficiency_def efficiency_model_def clamp_def powf_2_def Let_def)

lemma efficiency_model_unit: "lies_in 0 1 (efficiency_model inductance esr duty)"
proof -
  have "lies_in 0 1 (clamp x (Fin 0) (Fin 1))" for x
    by (rule clamp_lies_in) simp
  then show ?thesis
    by (simp add: efficiency_model_def Let_def f32_values lies_in_def)
qed

text \<open>
  C5. For all arguments and every duty cycle (infinities and NaN included) the result of
  \<open>calculate_efficiency\<close> is a number in \<open>[0, 1]\<close>, and it is the model of the
  specification: with total losses \<open>0.01 * inductance * duty\<^sup>2 + esr * duty\<^sup>2\<close>, 1.0 when
  the total is below 0.0001, and the clamp of \<open>1.0 - total\<close> to \<open>[0, 1]\<close> otherwise.
\<close>

theorem C5_efficiency_in_unit_interval:
  "lies_in 0 1 (fst (calculate_efficiency inductance capacitance esr s))
   \<and> fst (calculate_efficiency inductance capacitance esr s) =
       (let total_losses =
              fadd (fmul (fmul (f32 0.01) inductance) (fmul (duty_cycle s) (duty_cycle s)))
                   (fmul esr (fmul (duty_cycle s) (duty_cycle s)))
        in if flt total_losses (f32 0.0001) then Fin 1
           else clamp (fsub (Fin 1) total_losses) (Fin 0) (Fin 1))"
  by (simp add: calculate_efficiency_model efficiency_model_unit)
    (simp add: efficiency_model_def f32_values Let_def)

text \<open>
  C7. The efficiency model is a function of its arguments and of the duty cycle it reads
  from the state: it leaves the state as it found it, and two calls with the same
  arguments in two states with the same duty cycle return the same result, whatever else
  the states hold.
\<close>

theorem C7_efficiency_model_pure:
  assumes "duty_cycle s = duty_cycle s'"
  shows "fst (calculate_efficiency inductance capacitance esr s) =
         fst (calculate_efficiency inductance capacitance esr s')
     \<and> snd (calculate_efficiency inductance capacitance esr s) = s
     \<and> snd (calculate_efficiency inductance capacitance esr s') = s'"
  using assms by (simp add: calculate_efficiency_def Let_def)

theorem C7_witness:
  "duty_cycle (initial_state (\<lambda>k. 0)) =
     duty_cycle ((initial_state (\<lambda>k. 7))\<lparr>L_mH := Fin 3, efficiency := Fin 1, last_adjustment_time := 9\<rparr>)
   \<and> fst (calculate_efficiency (Fin 10) (Fin 6) (Fin 20) (initial_state (\<lambda>k. 0))) =
       fst (calculate_efficiency (Fin 10) (Fin 6) (Fin 20)
         ((initial_state (\<lambda>k. 7))\<lparr>L_mH := Fin 3, efficiency := Fin 1, last_adjustment_time := 9\<rparr>))
   \<and> snd (calculate_efficiency (Fin 10) (Fin 6) (Fin 20) (initial_state (\<lambda>k. 0))) =
       initial_state (\<lambda>k. 0)"
  using C7_efficiency_model_pure [of "initial_state (\<lambda>k. 0)"
      "(initial_state (\<lambda>k. 7))\<lparr>L_mH := Fin 3, efficiency := Fin 1, last_adjustment_time := 9\<rparr>"
      "Fin 10" "Fin 6" "Fin 20"]
  by (simp add: initial_state_def)


section \<open>The rate limit of the controller\<close>

lemma adjust_duty_cycle_limited:
  "current_time - last_adjustment_time s < 100
   \<Longrightarrow> adjust_duty_cycle target current_time s = (False, s)"
  by (simp add: adjust_duty_cycle_def)

lemma adjust_duty_cycle_timestamp:
  "last_adjustment_time (snd (adjust_duty_cycle target current_time s)) =
     (if current_time - last_adjustment_time s < 100 then last_adjustment_time s
      else current_time)"
  by (simp add: adjust_duty_cycle_def Let_def)

text \<open>
  C6. When the controller is invoked twice and the tick of the second invocation is less
  than 100 ms after the timestamp the controller holds after the first (the tick of the
  first invocation, unless that one was itself inside the window and left the older
  timestamp), the second invocation returns false and changes nothing: not the duty
  cycle, not the timestamp, nor any other variable. This holds whatever the program did
  to its other variables between the two invocations (nothing else writes the
  timestamp). The ticks are 32-bit and their difference wraps around, as in the source.
\<close>

theorem C6_second_call_in_window_is_noop:
  assumes first: "adjust_duty_cycle target1 t1 s = (r1, s1)"
    and between: "last_adjustment_time s2 = last_adjustment_time s1"
    and window: "t2 - last_adjustment_time s1 < 100"
  shows "adjust_duty_cycle target2 t2 s2 = (False, s2)
     \<and> duty_cycle (snd (adjust_duty_cycle target2 t2 s2)) = duty_cycle s2
     \<and> last_adjustment_time (snd (adjust_duty_cycle target2 t2 s2)) = last_adjustment_time s1
     \<and> last_adjustment_time s1 =
         (if t1 - last_adjustment_time s < 100 then last_adjustment_time s else t1)"
proof -
  have second: "adjust_duty_cycle target2 t2 s2 = (False, s2)"
    using window between by (simp add: adjust_duty_cycle_limited)
  have "s1 = snd (adjust_duty_cycle target1 t1 s)"
    using first by simp
  then have "last_adjustment_time s1 =
      (if t1 - last_adjustment_time s < 100 then last_adjustment_time s else t1)"
    by (simp only: adjust_duty_cycle_timestamp)
  with second between show ?thesis
    by simp
qed

lemma round_first_error: "round_f32 (15938355 / 16777216) = Fin (15938355 / 16777216)"
  by (subst round_f32_in_binade [of 125])
    (simp_all add: min_quantum_def max_finite_def round_half_even_def Let_def)

lemma round_first_step: "round_f32 (213920982803415 / 4503599627370496) = Fin (3187671 / 67108864)"
  by (subst round_f32_in_binade [of 121])
    (simp_all add: min_quantum_def max_finite_def round_half_even_def Let_def)

lemma round_first_new_duty: "round_f32 (36742103 / 67108864) = Fin (4592763 / 8388608)"
  by (subst round_f32_in_binade [of 125])
    (simp_all add: min_quantum_def max_finite_def round_half_even_def Let_def)

lemma round_first_change: "round_f32 (398459 / 8388608) = Fin (398459 / 8388608)"
  by (subst round_f32_in_binade [of 121])
    (simp_all add: min_quantum_def max_finite_def round_half_even_def Let_def)

text \<open>
  The first adjustment after power-up, at tick 150: the efficiency is still 0, the step is
  \<open>0.95 * 0.05\<close> and the duty cycle goes from 0.5 to 0.5475 (as binary32 numbers).
\<close>

lemma first_adjustment:
  "adjust_duty_cycle TARGET_EFFICIENCY 150 (initial_state inp) =
     (True, (initial_state inp)\<lparr>duty_cycle := Fin (4592763 / 8388608), last_adjustment_time := 150\<rparr>)"
  by (simp add: adjust_duty_cycle_def initial_state_def TARGET_EFFICIENCY_value
      MIN_DUTY_CYCLE_value MAX_DUTY_CYCLE_value f32_values fsub_def round_first_error
      round_first_step round_first_new_duty round_first_change fmaxf_def fminf_def fgt_def)

theorem C6_witness:
  "adjust_duty_cycle TARGET_EFFICIENCY 150 (initial_state (\<lambda>k. 0)) =
     (True, (initial_state (\<lambda>k. 0))\<lparr>duty_cycle := Fin (4592763 / 8388608), last_adjustment_time := 150\<rparr>)
   \<and> (200 :: 32 word) - 150 < 100
   \<and> adjust_duty_cycle TARGET_EFFICIENCY 200
       ((initial_state (\<lambda>k. 0))\<lparr>duty_cycle := Fin (4592763 / 8388608), last_adjustment_time := 150\<rparr>) =
     (False, (initial_state (\<lambda>k. 0))\<lparr>duty_cycle := Fin (4592763 / 8388608), last_adjustment_time := 150\<rparr>)"
  using C6_second_call_in_window_is_noop [OF first_adjustment refl, of 200 "\<lambda>k. 0" TARGET_EFFICIENCY]
  by (simp add: first_adjustment)

section \<open>The bounds of the duty cycle\<close>

lemma measure_electrical_parameters_duty_cycle:
  "duty_cycle (snd (measure_electrical_parameters hadc s)) = duty_cycle s"
proof (cases hadc)
  case None
  then show ?thesis
    by (simp add: measure_electrical_parameters_def)
next
  case (Some h)
  obtain buf where "snd (read_adc_safely h s) =
      s\<lparr>adc_buffer := buf, adc_conversions := adc_conversions s + ADC_BUFFER_SIZE\<rparr>"
    using read_adc_safely_frame by blast
  with Some show ?thesis
    by (simp add: measure_electrical_parameters_Some)
qed

lemma measurement_phase_duty_cycle:
  "duty_cycle (measurement_phase hadc current_time s) =
     (if current_time - last_measurement_time s > 50
         \<and> \<not> fst (measure_electrical_parameters hadc (s\<lparr>last_measurement_time := current_time\<rparr>))
      then f32 0.5 else duty_cycle s)"
  using measure_electrical_parameters_duty_cycle [of hadc "s\<lparr>last_measurement_time := current_time\<rparr>"]
  by (simp add: measurement_phase_def split_beta Let_def calculate_efficiency_def)

lemma lies_between_Fin: "lies_between (Fin l) (Fin h) v = lies_in l h v"
  by (simp add: lies_between_def)

lemmas duty_limits = MIN_DUTY_CYCLE_value MAX_DUTY_CYCLE_value lies_between_Fin

lemma adjust_duty_cycle_in_bounds:
  assumes "duty_in_bounds s"
  shows "duty_in_bounds (snd (adjust_duty_cycle target current_time s))"
proof -
  have "lies_in (13421773 / 268435456) (15938355 / 16777216)
      (clamp x (Fin (13421773 / 268435456)) (Fin (15938355 / 16777216)))" for x
    by (rule clamp_lies_in) simp
  then have "lies_between MIN_DUTY_CYCLE MAX_DUTY_CYCLE
      (fmaxf MIN_DUTY_CYCLE (fminf MAX_DUTY_CYCLE x))" for x
    by (simp add: duty_limits clamp_def)
  with assms show ?thesis
    by (simp add: adjust_duty_cycle_def Let_def duty_in_bounds_def)
qed

lemma measurement_phase_in_bounds:
  assumes "duty_in_bounds s"
  shows "duty_in_bounds (measurement_phase hadc current_time s)"
  using assms
  by (simp add: duty_in_bounds_def measurement_phase_duty_cycle duty_limits
      f32_values lies_in_def)

lemma control_loop_in_bounds:
  "duty_in_bounds s \<Longrightarrow> duty_in_bounds (control_loop hadc current_time adjust_time s)"
  by (simp add: control_loop_def adjust_duty_cycle_in_bounds measurement_phase_in_bounds)

lemma error_handler_entry_in_bounds: "duty_in_bounds (error_handler_entry s)"
  by (simp add: error_handler_entry_def duty_in_bounds_def duty_limits lies_in_def)

lemma invoke_in_bounds: "duty_in_bounds s \<Longrightarrow> duty_in_bounds (invoke c s)"
  by (cases c)
    (simp_all add: control_loop_in_bounds adjust_duty_cycle_in_bounds error_handler_entry_in_bounds)

lemma invoke_all_in_bounds: "duty_in_bounds s \<Longrightarrow> duty_in_bounds (invoke_all cs s)"
  by (induction cs arbitrary: s) (simp_all add: invoke_in_bounds)

lemma system_init_in_bounds:
  "duty_in_bounds (snd (system_init a b h s)) = duty_in_bounds s"
  by (simp add: system_init_def duty_in_bounds_def)

lemma main_step_in_bounds:
  assumes "duty_in_bounds (snd c)"
  shows "duty_in_bounds (snd (main_step i c))"
proof (cases c)
  case (Pair p s)
  with assms have s: "duty_in_bounds s"
    by simp
  show ?thesis
  proof (cases p)
    case At_init
    obtain ok s' where init: "system_init (hal_init_status i) (adc_init_status i) (hadc1_content i) s = (ok, s')"
      by (cases "system_init (hal_init_status i) (adc_init_status i) (hadc1_content i) s")
    with s system_init_in_bounds [of "hal_init_status i" "adc_init_status i" "hadc1_content i" s]
    have "duty_in_bounds s'"
      by simp
    with Pair At_init init show ?thesis
      by (cases ok) (simp_all add: error_handler_entry_in_bounds)
  next
    case In_main_loop
    with Pair s show ?thesis
      by (simp add: control_loop_in_bounds)
  next
    case In_error_handler
    with Pair s show ?thesis
      by simp
  qed
qed

lemma main_run_in_bounds:
  "duty_in_bounds (snd c) \<Longrightarrow> duty_in_bounds (snd (main_run inputs c))"
  by (induction inputs arbitrary: c) (simp_all add: main_step_in_bounds)

lemma initial_state_in_bounds: "duty_in_bounds ((initial_state inp)\<lparr>adc_status := st\<rparr>)"
  by (simp add: initial_state_def duty_in_bounds_def duty_limits f32_values lies_in_def)

lemma duty_in_bounds_decimal:
  "duty_in_bounds s \<Longrightarrow> lies_in 0.05 0.95 (duty_cycle s)"
  by (auto simp add: duty_in_bounds_def duty_limits lies_in_def split: float32.splits)

text \<open>
  C2. From the initial state (duty cycle 0.5), after every sequence of invocations of
  \<open>control_loop\<close>, \<open>adjust_duty_cycle\<close> and the fault handler, with any handles,
  ticks, samples, conversion statuses and targets, the duty cycle is a number between
  \<open>MIN_DUTY_CYCLE\<close> and \<open>MAX_DUTY_CYCLE\<close>, hence in \<open>[0.05, 0.95]\<close>; so it is between
  the two halves of \<open>control_loop\<close>, and after every run of \<open>main\<close>.
\<close>

theorem C2_duty_cycle_bounded:
  "duty_in_bounds (invoke_all cs ((initial_state inp)\<lparr>adc_status := st\<rparr>))
   \<and> lies_in 0.05 0.95 (duty_cycle (invoke_all cs ((initial_state inp)\<lparr>adc_status := st\<rparr>)))
   \<and> duty_in_bounds (measurement_phase hadc current_time
         (invoke_all cs ((initial_state inp)\<lparr>adc_status := st\<rparr>)))
   \<and> duty_in_bounds (snd (main_run inputs (At_init, (initial_state inp)\<lparr>adc_status := st\<rparr>)))
   \<and> lies_in 0.05 0.95
         (duty_cycle (snd (main_run inputs (At_init, (initial_state inp)\<lparr>adc_status := st\<rparr>))))"
proof -
  have a: "duty_in_bounds (invoke_all cs ((initial_state inp)\<lparr>adc_status := st\<rparr>))"
    by (rule invoke_all_in_bounds) (rule initial_state_in_bounds)
  have b: "duty_in_bounds (snd (main_run inputs (At_init, (initial_state inp)\<lparr>adc_status := st\<rparr>)))"
    by (rule main_run_in_bounds) (simp add: initial_state_in_bounds)
  from a b duty_in_bounds_decimal [OF a] duty_in_bounds_decimal [OF b] show ?thesis
    by (simp add: measurement_phase_in_bounds)
qed

section \<open>The fallback of the control loop\<close>














section \<open>The fault handler\<close>

lemma main_run_error_handler:
  "main_run inputs (In_error_handler, s) = (In_error_handler, s)"
  by (induction inputs) simp_all

text \<open>
  C8. When initialisation fails (\<open>HAL_Init\<close> or the initialisation of the analog driver
  does not return \<open>HAL_OK\<close>), the program enters \<open>error_handler\<close>, which sets the duty
  cycle to \<open>MIN_DUTY_CYCLE\<close> (0.05); after any number of further steps the program is
  still in the loop of \<open>error_handler\<close> and the state is the same: the duty cycle never
  changes again.
\<close>

theorem C8_init_failure_faults:
  assumes "hal_init_status i \<noteq> HAL_OK \<or> adc_init_status i \<noteq> HAL_OK"
  shows "main_run (i # inputs) (At_init, s) = (In_error_handler, s\<lparr>duty_cycle := MIN_DUTY_CYCLE\<rparr>)
     \<and> duty_cycle (snd (main_run (i # inputs) (At_init, s))) = f32 0.05"
proof -
  have "system_init (hal_init_status i) (adc_init_status i) (hadc1_content i) s = (False, s)"
    using assms by (auto simp add: system_init_def init_adc_def Let_def)
  then show ?thesis
    by (simp add: main_run_error_handler error_handler_entry_def MIN_DUTY_CYCLE_def)
qed

theorem C8_witness:
  "adc_init_status
     \<lparr>hal_init_status = HAL_OK, adc_init_status = HAL_ERROR, hadc1_content = configured_handle,
      loop_tick = 0, adjust_tick = 0\<rparr> \<noteq> HAL_OK
   \<and> main_run
     [\<lparr>hal_init_status = HAL_OK, adc_init_status = HAL_ERROR, hadc1_content = configured_handle,
       loop_tick = 0, adjust_tick = 0\<rparr>,
      \<lparr>hal_init_status = HAL_OK, adc_init_status = HAL_OK, hadc1_content = configured_handle,
       loop_tick = 1000, adjust_tick = 1000\<rparr>,
      \<lparr>hal_init_status = HAL_OK, adc_init_status = HAL_OK, hadc1_content = configured_handle,
       loop_tick = 2000, adjust_tick = 2000\<rparr>]
     (At_init, initial_state (\<lambda>k. 100)) =
   (In_error_handler, (initial_state (\<lambda>k. 100))\<lparr>duty_cycle := Fin (13421773 / 268435456)\<rparr>)"
  using C8_init_failure_faults [of
      "\<lparr>hal_init_status = HAL_OK, adc_init_status = HAL_ERROR, hadc1_content = configured_handle,
        loop_tick = 0, adjust_tick = 0\<rparr>"
      "[\<lparr>hal_init_status = HAL_OK, adc_init_status = HAL_OK, hadc1_content = configured_handle,
        loop_tick = 1000, adjust_tick = 1000\<rparr>,
       \<lparr>hal_init_status = HAL_OK, adc_init_status = HAL_OK, hadc1_content = configured_handle,
        loop_tick = 2000, adjust_tick = 2000\<rparr>]"
      "initial_state (\<lambda>k. 100)"]
  by (simp add: MIN_DUTY_CYCLE_value)

end
